theory Spec2Isabelle
  imports Complex_Main
begin

section \<open>The exact-arithmetic reading of the numerical primitives\<close>

text \<open>
  The notebooks compute with Python floats and NumPy \<open>float64\<close> arrays. Two readings of
  that arithmetic are used. This first one takes every finite value as a real number and
  every operation as exact (no rounding, no overflow); it serves only to bound the value
  of the narrative example on the recorded sample, where rounding is orders of magnitude
  below the margins. The float64 reading, with rounding, overflow, underflow and signed
  zeros, follows it and carries everything said about failures. Exceptions of the Python
  runtime are values of type \<open>error\<close>.
\<close>

datatype error = IndexError | ZeroDivisionError | NameError string

datatype npfloat = Num real | NegInf | PosInf | NaN

text \<open>Multiplication and addition of \<open>float64\<close> values with infinities and NaN.\<close>

fun fmul :: "npfloat \<Rightarrow> npfloat \<Rightarrow> npfloat" where
  "fmul NaN _ = NaN"
| "fmul _ NaN = NaN"
| "fmul (Num a) (Num b) = Num (a * b)"
| "fmul (Num a) PosInf = (if a = 0 then NaN else if 0 < a then PosInf else NegInf)"
| "fmul (Num a) NegInf = (if a = 0 then NaN else if 0 < a then NegInf else PosInf)"
| "fmul PosInf (Num b) = (if b = 0 then NaN else if 0 < b then PosInf else NegInf)"
| "fmul NegInf (Num b) = (if b = 0 then NaN else if 0 < b then NegInf else PosInf)"
| "fmul PosInf PosInf = PosInf"
| "fmul NegInf NegInf = PosInf"
| "fmul PosInf NegInf = NegInf"
| "fmul NegInf PosInf = NegInf"

fun fadd :: "npfloat \<Rightarrow> npfloat \<Rightarrow> npfloat" where
  "fadd NaN _ = NaN"
| "fadd _ NaN = NaN"
| "fadd (Num a) (Num b) = Num (a + b)"
| "fadd (Num a) PosInf = PosInf"
| "fadd (Num a) NegInf = NegInf"
| "fadd PosInf (Num b) = PosInf"
| "fadd NegInf (Num b) = NegInf"
| "fadd PosInf PosInf = PosInf"
| "fadd NegInf NegInf = NegInf"
| "fadd PosInf NegInf = NaN"
| "fadd NegInf PosInf = NaN"

text \<open>
  \<open>np.log\<close> does not raise: at zero it returns \<open>-inf\<close> and at a negative argument
  \<open>nan\<close> (each with a RuntimeWarning).
\<close>

definition np_log :: "real \<Rightarrow> npfloat" where
  "np_log x = (if 0 < x then Num (ln x) else if x = 0 then NegInf else NaN)"

text \<open>Division of two Python floats raises on a zero divisor.\<close>

definition py_truediv :: "real \<Rightarrow> real \<Rightarrow> error + real" where
  "py_truediv a b = (if b = 0 then Inl ZeroDivisionError else Inr (a / b))"

text \<open>Indexing a Python sequence with a non-negative constant index.\<close>

definition py_index :: "'a list \<Rightarrow> nat \<Rightarrow> error + 'a" where
  "py_index xs i = (if i < length xs then Inr (xs ! i) else Inl IndexError)"

definition len :: "'a list \<Rightarrow> nat" where
  "len xs = length xs"

definition np_sum :: "real list \<Rightarrow> real" where
  "np_sum xs = sum_list xs"

section \<open>The negative log-likelihood of the MLE notebook, in exact arithmetic\<close>

text \<open>
  \<^verbatim>\<open>
  def neg_log_llh(theta, data):
      mu = theta[0]
      sigma2 = theta[1]
      n = len(data)
      result = 0.5*n*np.log(2.0*np.pi*sigma2) + (1.0/(2.0*sigma2))*np.sum((data-mu)**2)
      return result
  \<close>
  \<open>theta\<close> is a Python sequence of floats (the docstring says a tuple, the cells pass
  \<open>[1.0,1.0]\<close> and \<open>(mu, sigma2)\<close>), \<open>data\<close> a one-dimensional array of finite values.
  The operands of \<open>+\<close> are evaluated left to right: the logarithm first, then the quotient.
  With floats from a Python sequence the quotient \<open>1.0/(2.0*sigma2)\<close> is Python's float
  division. (When \<open>theta\<close> is an array, as in the calls made by the optimizer, its elements
  are \<open>float64\<close> scalars and a zero divisor gives \<open>inf\<close> with a warning instead of an
  exception; the model is that of the documented sequence of floats.)
\<close>

definition neg_log_llh :: "real list \<Rightarrow> real list \<Rightarrow> error + npfloat" where
  "neg_log_llh theta data =
     (case py_index theta 0 of
        Inl e \<Rightarrow> Inl e
      | Inr mu \<Rightarrow>
     (case py_index theta 1 of
        Inl e \<Rightarrow> Inl e
      | Inr sigma2 \<Rightarrow>
     (let n = len data;
          left = fmul (Num (0.5 * real n)) (np_log (2.0 * pi * sigma2))
      in case py_truediv 1.0 (2.0 * sigma2) of
           Inl e \<Rightarrow> Inl e
         | Inr q \<Rightarrow>
             Inr (fadd left (fmul (Num q) (Num (np_sum (map (\<lambda>x. (x - mu)\<^sup>2) data))))))))"

section \<open>The float64 reading\<close>

subsection \<open>Rounding to the nearest float64\<close>

text \<open>
  A finite float64 is \<open>m * 2^e\<close> with an integer \<open>|m| < 2^53\<close> and \<open>-1074 \<le> e \<le> 971\<close>.
  Rounding is to the nearest such value, ties to the even significand: the spacing at
  \<open>x\<close> is \<open>2^(max (floor (log2 |x|)) (-1022) - 52)\<close>, which covers the subnormal range.
\<close>

definition p2 :: "int \<Rightarrow> real" where
  "p2 e = 2 powr real_of_int e"

definition rne :: "real \<Rightarrow> int" where
  "rne y =
     (let f = \<lfloor>y\<rfloor>; d = y - of_int f
      in if d < 1 / 2 then f else if 1 / 2 < d then f + 1 else if even f then f else f + 1)"

definition ulp :: "real \<Rightarrow> real" where
  "ulp x = p2 (max \<lfloor>log 2 x\<rfloor> (- 1022) - 52)"

definition round64 :: "real \<Rightarrow> real" where
  "round64 x = (if x = 0 then 0 else sgn x * (of_int (rne (\<bar>x\<bar> / ulp \<bar>x\<bar>)) * ulp \<bar>x\<bar>))"

definition is_float64 :: "real \<Rightarrow> bool" where
  "is_float64 x = (\<exists>m e. x = real_of_int m * p2 e \<and> \<bar>m\<bar> < 2 ^ 53 \<and> - 1074 \<le> e \<and> e \<le> 971)"

subsection \<open>Values and operations\<close>

text \<open>
  \<open>Fin 0\<close> is \<open>+0.0\<close> and \<open>MZero\<close> is \<open>-0.0\<close>. An exact result at or beyond
  \<open>2^1024 - 2^970\<close> in magnitude rounds to an infinity; a non-zero exact result that
  rounds to zero keeps its sign. The operations are those of IEEE 754 in the default
  rounding mode, which Python floats and NumPy \<open>float64\<close> scalars and arrays share.
\<close>

datatype float64 = Fin real | MZero | PInf | MInf | QNaN

fun val :: "float64 \<Rightarrow> real" where
  "val (Fin x) = x"
| "val _ = 0"

fun sign_bit :: "float64 \<Rightarrow> bool" where
  "sign_bit (Fin x) = (x < 0)"
| "sign_bit MZero = True"
| "sign_bit MInf = True"
| "sign_bit _ = False"

fun is_zero :: "float64 \<Rightarrow> bool" where
  "is_zero (Fin x) = (x = 0)"
| "is_zero MZero = True"
| "is_zero _ = False"

fun is_inf :: "float64 \<Rightarrow> bool" where
  "is_inf PInf = True"
| "is_inf MInf = True"
| "is_inf _ = False"

fun finite64 :: "float64 \<Rightarrow> bool" where
  "finite64 (Fin x) = True"
| "finite64 MZero = True"
| "finite64 _ = False"

fun is_positive :: "float64 \<Rightarrow> bool" where
  "is_positive (Fin x) = (0 < x)"
| "is_positive PInf = True"
| "is_positive _ = False"

fun is_negative :: "float64 \<Rightarrow> bool" where
  "is_negative (Fin x) = (x < 0)"
| "is_negative MInf = True"
| "is_negative _ = False"

definition signed_inf :: "bool \<Rightarrow> float64" where
  "signed_inf neg = (if neg then MInf else PInf)"

definition signed_zero :: "bool \<Rightarrow> float64" where
  "signed_zero neg = (if neg then MZero else Fin 0)"

definition overflow_threshold :: real where
  "overflow_threshold = 2 ^ 1024 - 2 ^ 970"

definition fl_of :: "bool \<Rightarrow> real \<Rightarrow> float64" where
  "fl_of neg x =
     (if overflow_threshold \<le> x then PInf
      else if x \<le> - overflow_threshold then MInf
      else if round64 x = 0 then signed_zero neg
      else Fin (round64 x))"

definition fmul64 :: "float64 \<Rightarrow> float64 \<Rightarrow> float64" where
  "fmul64 a b =
     (if a = QNaN \<or> b = QNaN then QNaN
      else if (is_inf a \<and> is_zero b) \<or> (is_zero a \<and> is_inf b) then QNaN
      else if is_inf a \<or> is_inf b then signed_inf (sign_bit a \<noteq> sign_bit b)
      else fl_of (sign_bit a \<noteq> sign_bit b) (val a * val b))"

definition fadd64 :: "float64 \<Rightarrow> float64 \<Rightarrow> float64" where
  "fadd64 a b =
     (if a = QNaN \<or> b = QNaN then QNaN
      else if is_inf a \<and> is_inf b then (if a = b then a else QNaN)
      else if is_inf a then a
      else if is_inf b then b
      else if val a + val b = 0 then signed_zero (a = MZero \<and> b = MZero)
      else fl_of (val a + val b < 0) (val a + val b))"

fun fneg :: "float64 \<Rightarrow> float64" where
  "fneg (Fin x) = (if x = 0 then MZero else Fin (- x))"
| "fneg MZero = Fin 0"
| "fneg PInf = MInf"
| "fneg MInf = PInf"
| "fneg QNaN = QNaN"

definition fsub64 :: "float64 \<Rightarrow> float64 \<Rightarrow> float64" where
  "fsub64 a b = fadd64 a (fneg b)"

definition fdiv64 :: "float64 \<Rightarrow> float64 \<Rightarrow> float64" where
  "fdiv64 a b =
     (if a = QNaN \<or> b = QNaN then QNaN
      else if (is_inf a \<and> is_inf b) \<or> (is_zero a \<and> is_zero b) then QNaN
      else if is_inf a \<or> is_zero b then signed_inf (sign_bit a \<noteq> sign_bit b)
      else if is_inf b then signed_zero (sign_bit a \<noteq> sign_bit b)
      else fl_of (sign_bit a \<noteq> sign_bit b) (val a / val b))"

text \<open>
  The docstring makes \<open>theta\<close> a tuple, and the cells of the notebook pass a list and a
  tuple of Python floats; the optimizer passes an array. With Python floats the quotient
  \<open>1.0/(2.0*sigma2)\<close> raises on a zero divisor; with the \<open>float64\<close> scalars of an array
  it returns an infinity (or \<open>nan\<close>) and warns.
\<close>

datatype seq_kind = PySequence | NdArray

definition truediv :: "seq_kind \<Rightarrow> float64 \<Rightarrow> float64 \<Rightarrow> error + float64" where
  "truediv kind a b =
     (case kind of
        PySequence \<Rightarrow> (if is_zero b then Inl ZeroDivisionError else Inr (fdiv64 a b))
      | NdArray \<Rightarrow> Inr (fdiv64 a b))"

text \<open>
  \<open>np.log\<close> never raises. On a positive finite argument it returns what the logarithm of
  the C library returns, a finite float64 that is a parameter here; at either zero it
  returns \<open>-inf\<close>, at \<open>+inf\<close> it returns \<open>+inf\<close>, at a negative argument \<open>nan\<close>.
\<close>

definition np_log64 :: "(real \<Rightarrow> real) \<Rightarrow> float64 \<Rightarrow> float64" where
  "np_log64 libm_log a =
     (case a of
        Fin x \<Rightarrow> (if 0 < x then Fin (libm_log x) else if x = 0 then MInf else QNaN)
      | MZero \<Rightarrow> MInf
      | PInf \<Rightarrow> PInf
      | MInf \<Rightarrow> QNaN
      | QNaN \<Rightarrow> QNaN)"

text \<open>\<open>np.pi\<close> is the float64 nearest to \<open>pi\<close>.\<close>

definition np_pi64 :: float64 where
  "np_pi64 = Fin (884279719003555 / 2 ^ 48)"

text \<open>The conversion of \<open>len(data)\<close> to a float in \<open>0.5*n\<close>.\<close>

definition int_to_float :: "nat \<Rightarrow> float64" where
  "int_to_float n = fl_of False (real n)"

subsection \<open>The negative log-likelihood in float64\<close>

text \<open>
  The function of the notebook, operation by operation and in Python's order of
  evaluation. \<open>np.sum\<close> reduces the array of squares in an order of NumPy's choosing; it
  is a parameter, as is the logarithm of the C library. \<open>(data-mu)**2\<close> is the elementwise
  difference and its elementwise square.
\<close>

definition neg_log_llh_float64 ::
  "(real \<Rightarrow> real) \<Rightarrow> (float64 list \<Rightarrow> float64) \<Rightarrow> seq_kind \<Rightarrow> float64 list \<Rightarrow> float64 list
     \<Rightarrow> error + float64" where
  "neg_log_llh_float64 libm_log np_sum64 kind theta data =
     (case py_index theta 0 of
        Inl e \<Rightarrow> Inl e
      | Inr mu \<Rightarrow>
     (case py_index theta 1 of
        Inl e \<Rightarrow> Inl e
      | Inr sigma2 \<Rightarrow>
     (let n = len data;
          left = fmul64 (fmul64 (Fin 0.5) (int_to_float n))
                   (np_log64 libm_log (fmul64 (fmul64 (Fin 2.0) np_pi64) sigma2))
      in case truediv kind (Fin 1.0) (fmul64 (Fin 2.0) sigma2) of
           Inl e \<Rightarrow> Inl e
         | Inr q \<Rightarrow>
             Inr (fadd64 left
                    (fmul64 q (np_sum64 (map (\<lambda>x. fmul64 (fsub64 x mu) (fsub64 x mu)) data)))))))"

section \<open>The recorded sample\<close>

text \<open>
  The array that the MLE notebook records as the output of the cell \<open>data\<close>, as printed
  there (eight decimals per element).
\<close>

definition recorded_data :: "real list" where
  "recorded_data =
    [5.63718474, 5.6131166, 2.41177486, 3.05844157, 4.50904427,
     3.92805543, 3.53099871, 3.09952093, 7.64147207, 4.71951771,
     5.1585242, 5.74035561, 5.22027127, 3.9179357, 6.40416901,
     5.08299154, 4.80238971, 5.81449738, 4.7751317, 4.93848464,
     3.31444849, 5.88102905, 5.49985917, 5.32210907, 3.41205537,
     3.56850722, 6.66377822, 7.79015438, 5.10943809, 5.77202018,
     5.68894746, 3.13521042, 3.63525525, 5.18329347, 6.16382942,
     6.38111525, 3.90336604, 4.56637821, 5.17478975, 2.89866201,
     4.18542882, 4.59276915, 6.13769554, 5.16900946, 3.60472348,
     1.37431963, 3.09977926, 6.20284219, 3.96879649, 6.64977565]"

text \<open>The value that the notebook records as the output of \<open>neg_log_llh([1.0,1.0], data)\<close>.\<close>

definition recorded_output :: real where
  "recorded_output = 451.52579798454957"

section \<open>The training loop of the TensorFlow section\<close>

text \<open>
  \<^verbatim>\<open>
  for i in range(1000):
      sess.run(train, {x: data})
  \<close>
  One call of \<open>sess.run(train, ...)\<close> is one step of the optimizer on the session's
  state; the step itself belongs to the library and is a parameter here.
\<close>

definition py_range :: "nat \<Rightarrow> nat list" where
  "py_range n = [0..<n]"

definition train_loop :: "('s \<Rightarrow> 's) \<Rightarrow> 's \<Rightarrow> 's" where
  "train_loop sess_run_train s = fold (\<lambda>i. sess_run_train) (py_range 1000) s"

section \<open>Running the cells of a notebook in order\<close>

text \<open>
  A notebook is a list of cells; running it executes the code cells from top to bottom
  in one global namespace and stops at the first exception. For the resolution of names
  a statement is what it reads and what it binds. A function definition binds its name
  and records the global names its body reads; they are looked up when the function is
  called, and every read of a function's name in a statement of these notebooks leads
  to a call. Calls into the imported libraries are taken to succeed.
\<close>

type_synonym name = string

datatype stmt =
    Import "name list"
  | Assign "name list" "name list"
  | Expr "name list"
  | Def name "name list"
  | For name "name list" "name list"
  | Magic

text \<open>
  \<open>Import ns\<close> binds the names \<open>ns\<close>; \<open>Assign targets rhs\<close> reads the names \<open>rhs\<close> and
  then binds \<open>targets\<close>; \<open>Expr xs\<close> reads \<open>xs\<close>; \<open>Def f body\<close> binds \<open>f\<close> to a function
  whose body reads the global names \<open>body\<close>; \<open>For v iter body\<close> reads \<open>iter\<close>, binds \<open>v\<close>
  and reads \<open>body\<close>; \<open>Magic\<close> is a command of the notebook shell and touches no name.
  A bound name carries the reads of its body when it is a function of the notebook,
  and none otherwise.
\<close>

datatype cell = Markdown | Code "stmt list"

type_synonym env = "(name \<times> name list) list"

datatype run_result = Finished env | Raised nat error env

definition bind :: "name list \<Rightarrow> env \<Rightarrow> env" where
  "bind ns env = map (\<lambda>n. (n, [])) (rev ns) @ env"

definition first_missing :: "env \<Rightarrow> name list \<Rightarrow> name option" where
  "first_missing env xs = find (\<lambda>x. map_of env x = None) xs"

definition bodies :: "env \<Rightarrow> name list \<Rightarrow> name list" where
  "bodies env xs = concat (map (\<lambda>x. case map_of env x of Some b \<Rightarrow> b | None \<Rightarrow> []) xs)"

text \<open>
  The first name that a statement reading \<open>xs\<close> finds unbound: one of \<open>xs\<close>, or a
  global name read by the body of a function among them, to the given depth of calls.
\<close>

fun unbound :: "nat \<Rightarrow> env \<Rightarrow> name list \<Rightarrow> name option" where
  "unbound 0 env xs = first_missing env xs"
| "unbound (Suc k) env xs =
     (case first_missing env xs of
        Some x \<Rightarrow> Some x
      | None \<Rightarrow> (if bodies env xs = [] then None else unbound k env (bodies env xs)))"

definition reads :: "env \<Rightarrow> name list \<Rightarrow> error + env" where
  "reads env xs =
     (case unbound (length env) env xs of
        Some x \<Rightarrow> Inl (NameError x)
      | None \<Rightarrow> Inr env)"

text \<open>
  A statement that raises binds nothing; what the statements before it have bound stays
  bound. A failure is reported with the namespace it leaves behind.
\<close>

fun exec_stmt :: "env \<Rightarrow> stmt \<Rightarrow> (error \<times> env) + env" where
  "exec_stmt env (Import ns) = Inr (bind ns env)"
| "exec_stmt env (Assign targets rhs) =
     (case reads env rhs of Inl e \<Rightarrow> Inl (e, env) | Inr _ \<Rightarrow> Inr (bind targets env))"
| "exec_stmt env (Expr xs) =
     (case reads env xs of Inl e \<Rightarrow> Inl (e, env) | Inr _ \<Rightarrow> Inr env)"
| "exec_stmt env (Def f body) = Inr ((f, body) # env)"
| "exec_stmt env (For v iter body) =
     (case reads env iter of
        Inl e \<Rightarrow> Inl (e, env)
      | Inr _ \<Rightarrow>
         (case reads (bind [v] env) body of
            Inl e \<Rightarrow> Inl (e, bind [v] env)
          | Inr _ \<Rightarrow> Inr (bind [v] env)))"
| "exec_stmt env Magic = Inr env"

fun exec_cell :: "env \<Rightarrow> stmt list \<Rightarrow> (error \<times> env) + env" where
  "exec_cell env [] = Inr env"
| "exec_cell env (s # ss) =
     (case exec_stmt env s of Inl failure \<Rightarrow> Inl failure | Inr env' \<Rightarrow> exec_cell env' ss)"

text \<open>Cells are counted from 0, text cells included; a text cell runs nothing.\<close>

fun run_cells :: "nat \<Rightarrow> env \<Rightarrow> cell list \<Rightarrow> run_result" where
  "run_cells i env [] = Finished env"
| "run_cells i env (Markdown # cs) = run_cells (Suc i) env cs"
| "run_cells i env (Code ss # cs) =
     (case exec_cell env ss of
        Inl (e, env') \<Rightarrow> Raised i e env'
      | Inr env' \<Rightarrow> run_cells (Suc i) env' cs)"

text \<open>The built-in names the notebooks use are bound in a fresh kernel.\<close>

definition builtins :: env where
  "builtins = bind [''print'', ''len'', ''range''] []"

definition run_notebook :: "cell list \<Rightarrow> run_result" where
  "run_notebook cells = run_cells 0 builtins cells"

text \<open>The names that the statements of a notebook bind, wherever they stand.\<close>

fun binds_of :: "stmt \<Rightarrow> name list" where
  "binds_of (Import ns) = ns"
| "binds_of (Assign targets rhs) = targets"
| "binds_of (Expr xs) = []"
| "binds_of (Def f body) = [f]"
| "binds_of (For v iter body) = [v]"
| "binds_of Magic = []"

fun binders :: "cell list \<Rightarrow> name list" where
  "binders [] = []"
| "binders (Markdown # cs) = binders cs"
| "binders (Code ss # cs) = concat (map binds_of ss) @ binders cs"

subsection \<open>The modelling-overview notebook\<close>

text \<open>
  The code cells of the notebook, by index (the other indices up to 20 are text cells);
  \<open>B\<close> stands for the Greek letter beta, the name of the parameter:
  \<^verbatim>\<open>
   3  import numpy as np
      import tensorflow as tf
      import tensorflow.contrib.distributions as dist
   4  import matplotlib.pyplot as plt
      %matplotlib inline
   9  B = 20 # Parameter
      data = np.random.exponential(B, 100) # Model
      data # data
  11  plt.hist(data, bins=20);
  15  observed_data = np.array([ 6.57946838, ..., 24.90308858])
  17  beta_hat = observed_data.mean()
  19  new_data = np.random.exponential(best_parameter, 20)
      new_data
  \<close>
  The name of the parameter is the UTF-8 encoding of the letter.
\<close>

definition beta :: name where
  "beta = [CHR 0xCE, CHR 0xB2]"

definition modelling_overview :: "cell list" where
  "modelling_overview =
    [Markdown, Markdown, Markdown,
     Code [Import [''np''], Import [''tf''], Import [''dist'']],
     Code [Import [''plt''], Magic],
     Markdown, Markdown, Markdown, Markdown,
     Code [Assign [beta] [], Assign [''data''] [''np'', beta], Expr [''data'']],
     Markdown,
     Code [Expr [''plt'', ''data'']],
     Markdown, Markdown, Markdown,
     Code [Assign [''observed_data''] [''np'']],
     Markdown,
     Code [Assign [''beta_hat''] [''observed_data'']],
     Markdown,
     Code [Assign [''new_data''] [''np'', ''best_parameter''], Expr [''new_data'']],
     Markdown]"

subsection \<open>The MLE notebook\<close>

text \<open>
  The code cells of the notebook, by index (the other indices up to 65 are text cells):
  \<^verbatim>\<open>
   3  import numpy as np
      from matplotlib import pyplot as plt
      %matplotlib inline
   8  mu = 5.0
      sigma2 = 2.0
      data = np.random.normal(mu, np.sqrt(sigma2), 50)
  10  plt.hist(data, bins=20, normed=True)
      plt.xlabel('x')
      plt.ylabel('y')
      plt.title('Generated Sample Distribution for the Normal Distribution');
  12  def neg_log_llh(theta, data): ...
  13  neg_log_llh([1.0,1.0], data)
  16  from ipywidgets import interact
  17  def print_log_llh(mu, sigma2):
          print(neg_log_llh((mu, sigma2), data))
  18  interact(print_log_llh, mu=(0.0, 10.0, 0.1), sigma2=(0.1, 10.0, 0.1));
  21  from scipy.optimize import minimize
  23  data
  25  fit = minimize(lambda theta: neg_log_llh(theta, data), [4.0,2.0])
      fit
  27  print('mu:       ', fit.x[0])
      print('sigma**2: ', fit.x[1])
  29  print('mu:       ', mu)
      print('sigma**2: ', sigma2)
  31  print('sample mu:      ', data.mean())
      print('sample sigma**2:', data.var())
  35  from scipy.stats import norm
  37  N = norm(mu, np.sqrt(sigma2))
  39  N.pdf(1.0)
  41  N.logpdf(1.0)
  43  N.rvs(10)
  45  mu_hat, sigma_hat = stats.norm.fit(data)
  47  print('sample mu:      ', mu_hat)
      print('sample sigma**2:', sigma_hat**2)
  50  import tensorflow as tf
      from tensorflow.contrib import distributions as dist
  52  dist.Normal??
  53  mu = tf.Variable(1.0, dtype=tf.float64)
      sigma = tf.Variable(1.0, dtype=tf.float64)
      x = tf.placeholder(dtype=tf.float64)
      model = dist.Normal(mu, sigma)
      nll = tf.reduce_sum(-1.0*model.log_pdf(x))
  55  sess = tf.Session()
      init = tf.global_variables_initializer()
      sess.run(init)
  57  optimizer = tf.train.GradientDescentOptimizer(0.01)
  58  train = optimizer.minimize(nll)
  60  for i in range(1000):
          sess.run(train, {x: data})
  62  sess.run([mu, sigma])
  64  sess.run(nll, {x: data})
  \<close>
  The body of \<open>neg_log_llh\<close> reads the global names \<open>len\<close> and \<open>np\<close>, that of
  \<open>print_log_llh\<close> reads \<open>print\<close>, \<open>neg_log_llh\<close> and \<open>data\<close>; the lambda of cell 25 is
  called by \<open>minimize\<close> within the statement, so its reads count as the statement's.
  The introspection \<open>dist.Normal??\<close> of cell 52 is a command of the notebook shell.
\<close>

definition mle_notebook :: "cell list" where
  "mle_notebook =
    [Markdown, Markdown, Markdown,
     Code [Import [''np''], Import [''plt''], Magic],
     Markdown, Markdown, Markdown, Markdown,
     Code [Assign [''mu''] [], Assign [''sigma2''] [],
           Assign [''data''] [''np'', ''mu'', ''np'', ''sigma2'']],
     Markdown,
     Code [Expr [''plt'', ''data''], Expr [''plt''], Expr [''plt''], Expr [''plt'']],
     Markdown,
     Code [Def ''neg_log_llh'' [''len'', ''np'', ''np'', ''np'']],
     Code [Expr [''neg_log_llh'', ''data'']],
     Markdown, Markdown,
     Code [Import [''interact'']],
     Code [Def ''print_log_llh'' [''print'', ''neg_log_llh'', ''data'']],
     Code [Expr [''interact'', ''print_log_llh'']],
     Markdown, Markdown,
     Code [Import [''minimize'']],
     Markdown,
     Code [Expr [''data'']],
     Markdown,
     Code [Assign [''fit''] [''minimize'', ''neg_log_llh'', ''data''], Expr [''fit'']],
     Markdown,
     Code [Expr [''print'', ''fit''], Expr [''print'', ''fit'']],
     Markdown,
     Code [Expr [''print'', ''mu''], Expr [''print'', ''sigma2'']],
     Markdown,
     Code [Expr [''print'', ''data''], Expr [''print'', ''data'']],
     Markdown, Markdown, Markdown,
     Code [Import [''norm'']],
     Markdown,
     Code [Assign [''N''] [''norm'', ''mu'', ''np'', ''sigma2'']],
     Markdown,
     Code [Expr [''N'']],
     Markdown,
     Code [Expr [''N'']],
     Markdown,
     Code [Expr [''N'']],
     Markdown,
     Code [Assign [''mu_hat'', ''sigma_hat''] [''stats'', ''data'']],
     Markdown,
     Code [Expr [''print'', ''mu_hat''], Expr [''print'', ''sigma_hat'']],
     Markdown, Markdown,
     Code [Import [''tf''], Import [''dist'']],
     Markdown,
     Code [Magic],
     Code [Assign [''mu''] [''tf'', ''tf''], Assign [''sigma''] [''tf'', ''tf''],
           Assign [''x''] [''tf'', ''tf''], Assign [''model''] [''dist'', ''mu'', ''sigma''],
           Assign [''nll''] [''tf'', ''model'', ''x'']],
     Markdown,
     Code [Assign [''sess''] [''tf''], Assign [''init''] [''tf''], Expr [''sess'', ''init'']],
     Markdown,
     Code [Assign [''optimizer''] [''tf'']],
     Code [Assign [''train''] [''optimizer'', ''nll'']],
     Markdown,
     Code [For ''i'' [''range''] [''sess'', ''train'', ''x'', ''data'']],
     Markdown,
     Code [Expr [''sess'', ''mu'', ''sigma'']],
     Markdown,
     Code [Expr [''sess'', ''nll'', ''x'', ''data'']],
     Markdown]"

section \<open>The exact-arithmetic value for a positive variance\<close>

lemma neg_log_llh_pos:
  assumes "0 < sigma2"
  shows "neg_log_llh (mu # sigma2 # rest) data =
    Inr (Num (real (length data) / 2 * ln (2 * pi * sigma2)
              + 1 / (2 * sigma2) * (\<Sum>x\<leftarrow>data. (x - mu)\<^sup>2)))"
  using assms
  by (simp add: neg_log_llh_def py_index_def py_truediv_def np_log_def len_def np_sum_def
      zero_less_mult_iff)

section \<open>Rounding keeps away from zero\<close>

lemma p2_pos [simp]: "0 < p2 e"
  by (simp add: p2_def)

lemma p2_nonneg [simp]: "0 \<le> p2 e"
  by (simp add: p2_def)

lemma p2_add: "p2 (a + b) = p2 a * p2 b"
  by (simp add: p2_def powr_add)

lemma p2_mono: "a \<le> b \<Longrightarrow> p2 a \<le> p2 b"
  by (simp add: p2_def)

lemma p2_nonneg_int: "0 \<le> j \<Longrightarrow> p2 j = of_int (2 ^ nat j)"
  by (simp add: p2_def powr_real_of_int)

lemma rne_ge_floor: "\<lfloor>y\<rfloor> \<le> rne y"
  by (simp add: rne_def Let_def)

lemma rne_ge:
  assumes "of_int k \<le> y"
  shows "k \<le> rne y"
proof -
  have "k \<le> \<lfloor>y\<rfloor>" using assms by (simp add: le_floor_iff)
  then show ?thesis using rne_ge_floor [of y] by linarith
qed

lemma floor_log2_bounds:
  assumes "0 < x"
  shows "p2 \<lfloor>log 2 x\<rfloor> \<le> x"
proof -
  have "real_of_int \<lfloor>log 2 x\<rfloor> \<le> log 2 x" by simp
  then have "2 powr real_of_int \<lfloor>log 2 x\<rfloor> \<le> 2 powr log 2 x" by simp
  then show ?thesis using assms by (simp add: p2_def)
qed

lemma le_floor_log2:
  assumes "p2 k \<le> x"
  shows "k \<le> \<lfloor>log 2 x\<rfloor>"
proof -
  have x: "0 < x" using assms p2_pos [of k] by linarith
  have "log 2 (p2 k) \<le> log 2 x" using assms x by simp
  then have "real_of_int k \<le> log 2 x" by (simp add: p2_def)
  then show ?thesis by (simp add: le_floor_iff)
qed

lemma ulp_pos [simp]: "0 < ulp x"
  by (simp add: ulp_def)

lemma ulp_nonneg [simp]: "0 \<le> ulp x"
  by (rule less_imp_le) simp


text \<open>Rounding does not go below a power of two that the argument has reached.\<close>

lemma round64_ge_p2:
  assumes k: "- 1074 \<le> k" and x: "p2 k \<le> x"
  shows "p2 k \<le> round64 x"
proof -
  have pos: "0 < x" using x p2_pos [of k] by linarith
  define L where "L = \<lfloor>log 2 x\<rfloor>"
  define e where "e = max L (- 1022)"
  have u: "ulp x = p2 (e - 52)" by (simp add: ulp_def e_def L_def)
  have kL: "k \<le> L" unfolding L_def using x by (rule le_floor_log2)
  have Lx: "p2 L \<le> x" unfolding L_def using pos by (rule floor_log2_bounds)
  have r: "round64 x = of_int (rne (x / ulp x)) * ulp x"
    using pos by (simp add: round64_def)
  show ?thesis
  proof (cases "e - 52 \<le> k")
    case True
    define j where "j = k - (e - 52)"
    have j: "0 \<le> j" using True by (simp add: j_def)
    have "p2 k = p2 j * ulp x" unfolding u j_def p2_add [symmetric] by simp
    then have pk: "p2 k = of_int (2 ^ nat j) * ulp x" using j by (simp add: p2_nonneg_int)
    then have "of_int (2 ^ nat j) * ulp x \<le> x" using x by simp
    then have "of_int (2 ^ nat j) \<le> x / ulp x" by (simp add: pos_le_divide_eq)
    then have "2 ^ nat j \<le> rne (x / ulp x)" by (rule rne_ge)
    then have "real_of_int (2 ^ nat j) \<le> real_of_int (rne (x / ulp x))" by (simp only: of_int_le_iff)
    then have "of_int (2 ^ nat j) * ulp x \<le> of_int (rne (x / ulp x)) * ulp x"
      by (intro mult_right_mono) simp_all
    then show ?thesis unfolding r pk .
  next
    case False
    then have eL: "e = L" using k by (simp add: e_def max_def split: if_splits) 
    have "p2 L = p2 52 * ulp x" unfolding u eL p2_add [symmetric] by simp
    then have pL: "p2 L = of_int (2 ^ nat 52) * ulp x" by (simp add: p2_nonneg_int)
    then have "of_int (2 ^ nat 52) * ulp x \<le> x" using Lx by simp
    then have "of_int (2 ^ nat 52) \<le> x / ulp x" by (simp add: pos_le_divide_eq)
    then have "2 ^ nat 52 \<le> rne (x / ulp x)" by (rule rne_ge)
    then have "real_of_int (2 ^ nat 52) \<le> real_of_int (rne (x / ulp x))" by (simp only: of_int_le_iff)
    then have "of_int (2 ^ nat 52) * ulp x \<le> of_int (rne (x / ulp x)) * ulp x"
      by (intro mult_right_mono) simp_all
    then have "p2 L \<le> round64 x" unfolding r pL .
    moreover have "p2 k \<le> p2 L" using kL by (rule p2_mono)
    ultimately show ?thesis by linarith
  qed
qed

lemma round64_minus: "round64 (- x) = - round64 x"
  by (simp add: round64_def sgn_real_def)

lemma round64_le_minus_p2:
  assumes "- 1074 \<le> k" and "x \<le> - p2 k"
  shows "round64 x \<le> - p2 k"
proof -
  have "p2 k \<le> round64 (- x)" using assms by (intro round64_ge_p2) simp_all
  then show ?thesis by (simp add: round64_minus)
qed

section \<open>Where the negative log-likelihood can fail\<close>

lemma overflow_threshold_pos: "0 < overflow_threshold"
  by (simp add: overflow_threshold_def)

lemma p2_m1074_pos: "0 < p2 (- 1074)" by simp

lemma fl_of_positive:
  assumes "p2 (- 1074) \<le> x"
  shows "is_positive (fl_of neg x)"
proof -
  have x: "0 < x" using assms p2_pos [of "- 1074"] by linarith
  have r: "p2 (- 1074) \<le> round64 x" using assms by (intro round64_ge_p2) simp_all
  then have "0 < round64 x" using p2_pos [of "- 1074"] by linarith
  then show ?thesis using x overflow_threshold_pos by (simp add: fl_of_def)
qed

lemma fl_of_negative:
  assumes "x \<le> - p2 (- 1074)"
  shows "is_negative (fl_of neg x)"
proof -
  have x: "x < 0" using assms p2_pos [of "- 1074"] by linarith
  have r: "round64 x \<le> - p2 (- 1074)" using assms by (intro round64_le_minus_p2) simp_all
  then have "round64 x < 0" using p2_pos [of "- 1074"] by linarith
  then show ?thesis using x overflow_threshold_pos by (simp add: fl_of_def)
qed

lemma float64_pos_ge:
  assumes "is_float64 s" "0 < s"
  shows "p2 (- 1074) \<le> s"
proof -
  obtain m e where me: "s = real_of_int m * p2 e" "- 1074 \<le> e"
    using assms(1) by (auto simp: is_float64_def)
  have "0 < real_of_int m" using assms(2) me(1) p2_pos [of e] by (simp add: zero_less_mult_iff)
  then have "1 \<le> real_of_int m" by simp
  then have a: "p2 e \<le> real_of_int m * p2 e"
    using mult_right_mono [of 1 "real_of_int m" "p2 e"] by simp
  have b: "p2 (- 1074) \<le> p2 e" using me(2) by (rule p2_mono)
  show ?thesis unfolding me(1) using a b by linarith
qed

lemma float64_neg_le:
  assumes "is_float64 s" "s < 0"
  shows "s \<le> - p2 (- 1074)"
proof -
  have "is_float64 (- s)"
    using assms(1) unfolding is_float64_def
    by (elim exE conjE, rule_tac x = "- m" in exI, rule_tac x = e in exI) simp
  then have "p2 (- 1074) \<le> - s" using assms(2) by (intro float64_pos_ge) simp_all
  then show ?thesis by simp
qed

text \<open>The constant \<open>2.0*np.pi\<close> is a finite float not below 2.\<close>

lemma two_pi64:
  obtains c where "fmul64 (Fin 2.0) np_pi64 = Fin c" "2 \<le> c"
proof -
  let ?x = "2 * (884279719003555 / 2 ^ 48) :: real"
  have "p2 1 \<le> ?x" by (simp add: p2_def)
  then have "p2 1 \<le> round64 ?x" by (intro round64_ge_p2) simp_all
  then have r: "2 \<le> round64 ?x" by (simp add: p2_def)
  have "?x < overflow_threshold" by (simp add: overflow_threshold_def)
  then have "fmul64 (Fin 2.0) np_pi64 = Fin (round64 ?x)"
    using r by (simp add: fmul64_def np_pi64_def fl_of_def)
  then show ?thesis using r that by blast
qed


lemma fmul64_inf_right: "is_inf b \<Longrightarrow> \<not> finite64 (fmul64 a b)"
  by (cases b) (auto simp: fmul64_def signed_inf_def)

lemma fmul64_inf_left: "is_inf a \<Longrightarrow> \<not> finite64 (fmul64 a b)"
  by (cases a) (auto simp: fmul64_def signed_inf_def)

lemma fadd64_not_finite: "\<not> finite64 a \<Longrightarrow> \<not> finite64 b \<Longrightarrow> \<not> finite64 (fadd64 a b)"
  by (cases a; cases b) (auto simp: fadd64_def)

lemma fmul64_QNaN_right [simp]: "fmul64 a QNaN = QNaN"
  by (simp add: fmul64_def)

lemma fadd64_QNaN_left [simp]: "fadd64 QNaN b = QNaN"
  by (simp add: fadd64_def)

lemma fadd64_QNaN_right [simp]: "fadd64 a QNaN = QNaN"
  by (simp add: fadd64_def)

lemma np_log64_zero: "is_zero a \<Longrightarrow> np_log64 f a = MInf"
  by (cases a) (auto simp: np_log64_def)

lemma np_log64_negative: "is_negative a \<Longrightarrow> np_log64 f a = QNaN"
  by (cases a) (auto simp: np_log64_def)

lemma fdiv64_one_zero: "is_zero b \<Longrightarrow> is_inf (fdiv64 (Fin 1.0) b)"
  by (cases b) (auto simp: fdiv64_def signed_inf_def)

lemma positive_not_zero: "is_positive a \<Longrightarrow> \<not> is_zero a"
  by (cases a) auto

lemma negative_not_zero: "is_negative a \<Longrightarrow> \<not> is_zero a"
  by (cases a) auto

lemma fmul64_const_pos:
  assumes "0 < c" "1 \<le> c" "is_float64 s" "0 < s"
  shows "is_positive (fmul64 (Fin c) (Fin s))"
proof -
  have "p2 (- 1074) \<le> s" using assms(3,4) by (rule float64_pos_ge)
  moreover have "1 * s \<le> c * s" using assms by (intro mult_right_mono) simp_all
  ultimately have "p2 (- 1074) \<le> c * s" by simp
  then have "is_positive (fl_of False (c * s))" by (rule fl_of_positive)
  then show ?thesis using assms by (simp add: fmul64_def not_less [symmetric])
qed

lemma fmul64_const_neg:
  assumes "0 < c" "1 \<le> c" "is_float64 s" "s < 0"
  shows "is_negative (fmul64 (Fin c) (Fin s))"
proof -
  have "s \<le> - p2 (- 1074)" using assms(3,4) by (rule float64_neg_le)
  moreover have "c * s \<le> 1 * s" using assms by (intro mult_right_mono_neg) simp_all
  ultimately have "c * s \<le> - p2 (- 1074)" by simp
  then have "is_negative (fl_of True (c * s))" by (rule fl_of_negative)
  then show ?thesis using assms by (simp add: fmul64_def)
qed

lemma fmul64_zero_right:
  assumes "is_zero z"
  shows "is_zero (fmul64 (Fin c) z)"
  using assms by (cases z) (auto simp: fmul64_def fl_of_def round64_def signed_zero_def
      overflow_threshold_def)


lemma is_float64_two: "is_float64 2"
  unfolding is_float64_def
  by (rule exI [of _ 1], rule exI [of _ 1]) (simp add: p2_def)

lemma is_float64_minus_two: "is_float64 (- 2)"
  unfolding is_float64_def
  by (rule exI [of _ "- 1"], rule exI [of _ 1]) (simp add: p2_def)

lemma is_float64_2_1023: "is_float64 (2 ^ 1023)"
  unfolding is_float64_def
  by (rule exI [of _ "2 ^ 52"], rule exI [of _ 971]) (simp add: p2_def powr_real_of_int)


lemma fmul64_positive_PInf: "is_positive h \<Longrightarrow> fmul64 h PInf = PInf"
  by (cases h) (auto simp: fmul64_def signed_inf_def)

lemma fmul64_zero_left_cases: "fmul64 (Fin 0) S = QNaN \<or> is_zero (fmul64 (Fin 0) S)"
  by (cases S) (auto simp: fmul64_def fl_of_def round64_def signed_zero_def
      overflow_threshold_def)

lemma fadd64_PInf_zero: "is_zero r \<Longrightarrow> fadd64 PInf r = PInf"
  by (cases r) (auto simp: fadd64_def)

lemma half_len_positive: "0 < n \<Longrightarrow> is_positive (fmul64 (Fin 0.5) (int_to_float n))"
proof -
  assume n: "0 < n"
  have one: "p2 0 \<le> real n" using n by (simp add: p2_def)
  show ?thesis
  proof (cases "overflow_threshold \<le> real n")
    case True
    then show ?thesis by (simp add: int_to_float_def fl_of_def fmul64_def signed_inf_def)
  next
    case False
    have r: "p2 0 \<le> round64 (real n)" using one by (intro round64_ge_p2) simp_all
    then have r1: "1 \<le> round64 (real n)" by (simp add: p2_def)
    then have f: "int_to_float n = Fin (round64 (real n))"
      using False n overflow_threshold_pos by (simp add: int_to_float_def fl_of_def)
    have "p2 (- 1) \<le> 0.5 * round64 (real n)" using r1 by (simp add: p2_def powr_real_of_int)
    then have "p2 (- 1074) \<le> 0.5 * round64 (real n)"
      using p2_mono [of "- 1074" "- 1"] by linarith
    then have "is_positive (fl_of False (0.5 * round64 (real n)))" by (rule fl_of_positive)
    then show ?thesis using r1 unfolding f by (simp add: fmul64_def)
  qed
qed


section \<open>Running the notebooks\<close>

text \<open>
  C8: running the cells of the modelling-overview notebook in order raises a NameError
  at the prediction cell (cell 19) and produces no predictions: the cell reads
  \<open>best_parameter\<close>, a name that no statement of the notebook binds, while the inference
  step has bound the estimate to \<open>beta_hat\<close>.
\<close>

theorem modelling_overview_raises_NameError:
  "\<exists>env. run_notebook modelling_overview = Raised 19 (NameError ''best_parameter'') env
     \<and> map_of env ''beta_hat'' \<noteq> None
     \<and> map_of env ''new_data'' = None
     \<and> ''best_parameter'' \<notin> set (binders modelling_overview)
     \<and> ''beta_hat'' \<in> set (binders modelling_overview)"
  by (simp add: run_notebook_def modelling_overview_def builtins_def bind_def reads_def
      first_missing_def bodies_def beta_def)

text \<open>
  C6: the route through \<open>scipy.stats\<close> is the cell
  \<open>mu_hat, sigma_hat = stats.norm.fit(data)\<close> (cell 45). Run in order, the notebook has
  imported \<open>norm\<close> from \<open>scipy.stats\<close> but never bound the name \<open>stats\<close>: the cell raises
  a NameError and leaves \<open>mu_hat\<close> and \<open>sigma_hat\<close> unbound, so this route yields no
  estimates to compare with \<open>data.mean()\<close> and \<open>data.var()\<close>.
\<close>

theorem mle_notebook_stats_unbound:
  "\<exists>env. run_notebook mle_notebook = Raised 45 (NameError ''stats'') env
     \<and> map_of env ''norm'' \<noteq> None
     \<and> map_of env ''mu_hat'' = None
     \<and> map_of env ''sigma_hat'' = None
     \<and> ''stats'' \<notin> set (binders mle_notebook)"
  by (simp add: run_notebook_def mle_notebook_def builtins_def bind_def reads_def
      first_missing_def bodies_def)

section \<open>The number of training steps\<close>

lemma fold_same_step: "fold (\<lambda>i. f) xs s = (f ^^ length xs) s"
  by (induction xs arbitrary: s) (simp_all add: funpow_swap1)

lemma train_loop_funpow: "train_loop f s = (f ^^ 1000) s"
  by (simp add: train_loop_def py_range_def fold_same_step)

text \<open>
  C9: the text of the notebook announces 100 explicit steps of gradient descent; the loop
  under it runs over \<open>range(1000)\<close>. Counting the calls of \<open>sess.run(train, ...)\<close> (the
  step is the successor on a counter started at 0), the loop ends after 1000 steps, not 100.
\<close>

theorem train_loop_takes_1000_steps:
  "train_loop Suc 0 = 1000 \<and> train_loop Suc 0 \<noteq> 100"
  by (simp add: train_loop_funpow)

section \<open>The recorded output of the narrative example\<close>

subsection \<open>Rational bounds on \<open>pi\<close>\<close>

text \<open>
  The sine is increasing on \<open>[-pi/2, pi/2]\<close> and \<open>sin (pi/6) = 1/2\<close>; comparing the
  Maclaurin polynomial of the sine at a rational with \<open>1/2\<close> places the rational below
  or above \<open>pi/6\<close>.
\<close>

lemma sin_coeff_values:
  "sin_coeff 0 = 0" "sin_coeff 1 = 1" "sin_coeff 2 = 0" "sin_coeff 3 = - 1 / 6"
  "sin_coeff 4 = 0" "sin_coeff 5 = 1 / 120" "sin_coeff 6 = 0" "sin_coeff 7 = - 1 / 5040"
  "sin_coeff 8 = 0" "sin_coeff 9 = 1 / 362880" "sin_coeff 10 = 0"
  by (simp_all add: sin_coeff_def fact_numeral)

lemma sum_upto_11:
  "(\<Sum>m<(11::nat). f m) = f 0 + f 1 + f 2 + f 3 + f 4 + f 5 + f 6 + f 7 + f 8 + f 9 + (f 10 :: real)"
  by (simp add: eval_nat_numeral)

lemma sin_partial_sum:
  "(\<Sum>m<(11::nat). sin_coeff m * x ^ m) = x - x ^ 3 / 6 + x ^ 5 / 120 - x ^ 7 / 5040 + x ^ 9 / 362880"
proof -
  have "(\<Sum>m<(11::nat). sin_coeff m * x ^ m) =
      sin_coeff 0 * x ^ 0 + sin_coeff 1 * x ^ 1 + sin_coeff 2 * x ^ 2 + sin_coeff 3 * x ^ 3
      + sin_coeff 4 * x ^ 4 + sin_coeff 5 * x ^ 5 + sin_coeff 6 * x ^ 6 + sin_coeff 7 * x ^ 7
      + sin_coeff 8 * x ^ 8 + sin_coeff 9 * x ^ 9 + sin_coeff 10 * x ^ 10"
    by (rule sum_upto_11)
  then show ?thesis by (simp only: sin_coeff_values) simp
qed

lemma sin_poly_bound:
  fixes x :: real
  assumes "0 \<le> x"
  shows "sin x \<le> (x - x ^ 3 / 6 + x ^ 5 / 120 - x ^ 7 / 5040 + x ^ 9 / 362880) + x ^ 11 / 39916800"
    and "(x - x ^ 3 / 6 + x ^ 5 / 120 - x ^ 7 / 5040 + x ^ 9 / 362880) - x ^ 11 / 39916800 \<le> sin x"
proof -
  have f: "fact 11 = (39916800 :: real)" by (simp add: fact_numeral)
  have r: "inverse (fact 11) * \<bar>x\<bar> ^ 11 = x ^ 11 / 39916800"
    unfolding f using assms by (simp add: inverse_eq_divide)
  have b: "\<bar>sin x - (x - x ^ 3 / 6 + x ^ 5 / 120 - x ^ 7 / 5040 + x ^ 9 / 362880)\<bar> \<le> x ^ 11 / 39916800"
    using Maclaurin_sin_bound [of x 11] unfolding sin_partial_sum r .
  show "sin x \<le> (x - x ^ 3 / 6 + x ^ 5 / 120 - x ^ 7 / 5040 + x ^ 9 / 362880) + x ^ 11 / 39916800"
    using b by linarith
  show "(x - x ^ 3 / 6 + x ^ 5 / 120 - x ^ 7 / 5040 + x ^ 9 / 362880) - x ^ 11 / 39916800 \<le> sin x"
    using b by linarith
qed

lemma pi_lower: "6 * (16563 / 31633) < pi"
proof -
  let ?x = "16563 / 31633 :: real"
  have "sin ?x \<le> (?x - ?x ^ 3 / 6 + ?x ^ 5 / 120 - ?x ^ 7 / 5040 + ?x ^ 9 / 362880) + ?x ^ 11 / 39916800"
    by (rule sin_poly_bound(1)) simp
  also have "\<dots> < 1 / 2" by (simp add: power_divide)
  also have "\<dots> = sin (pi / 6)" by (simp add: sin_30)
  finally have "sin ?x < sin (pi / 6)" .
  moreover have "- (pi / 2) \<le> ?x" "?x \<le> pi / 2" "- (pi / 2) \<le> pi / 6" "pi / 6 \<le> pi / 2"
    using pi_ge_two by simp_all
  ultimately have "?x < pi / 6" by (simp only: sin_mono_less_eq)
  then show ?thesis by simp
qed

lemma pi_upper: "pi < 6 * (17628 / 33667)"
proof -
  let ?x = "17628 / 33667 :: real"
  have "sin (pi / 6) = 1 / 2" by (rule sin_30)
  also have "\<dots> < (?x - ?x ^ 3 / 6 + ?x ^ 5 / 120 - ?x ^ 7 / 5040 + ?x ^ 9 / 362880) - ?x ^ 11 / 39916800"
    by (simp add: power_divide)
  also have "\<dots> \<le> sin ?x"
    by (rule sin_poly_bound(2)) simp
  finally have "sin (pi / 6) < sin ?x" .
  moreover have "- (pi / 2) \<le> ?x" "?x \<le> pi / 2" "- (pi / 2) \<le> pi / 6" "pi / 6 \<le> pi / 2"
    using pi_ge_two by simp_all
  ultimately have "pi / 6 < ?x" by (simp only: sin_mono_less_eq)
  then show ?thesis by simp
qed

subsection \<open>Rational bounds on \<open>ln (2 pi)\<close>\<close>

text \<open>Partial sums of the exponential series, with the Lagrange remainder bounded on \<open>[0, 2]\<close>.\<close>

lemma exp_ge_partial_sum:
  fixes x :: real
  assumes "0 \<le> x"
  shows "(\<Sum>m<n. x ^ m / fact m) \<le> exp x"
proof -
  obtain t where t: "exp x = (\<Sum>m<n. x ^ m / fact m) + exp t / fact n * x ^ n"
    using Maclaurin_exp_le [of x n] by blast
  have "0 \<le> exp t / fact n * x ^ n" using assms by simp
  then show ?thesis using t by linarith
qed

lemma exp_le_partial_sum:
  fixes x :: real
  assumes "0 \<le> x" "x \<le> 2"
  shows "exp x \<le> (\<Sum>m<n. x ^ m / fact m) + 9 * x ^ n / fact n"
proof -
  obtain t where t: "\<bar>t\<bar> \<le> \<bar>x\<bar>" "exp x = (\<Sum>m<n. x ^ m / fact m) + exp t / fact n * x ^ n"
    using Maclaurin_exp_le [of x n] by blast
  have "t \<le> 1 + 1" using t(1) assms by linarith
  then have "exp t \<le> exp (1 + 1)" by (simp only: exp_le_cancel_iff)
  also have "\<dots> = exp 1 * exp 1" by (rule exp_add)
  also have "\<dots> \<le> 3 * 3" using exp_le by (intro mult_mono) simp_all
  finally have e9: "exp t \<le> 9" by simp
  have "exp t / fact n * x ^ n \<le> 9 / fact n * x ^ n"
    using e9 assms by (intro mult_right_mono divide_right_mono) simp_all
  then show ?thesis using t(2) by simp
qed

lemma sum_upto_16:
  "(\<Sum>m<(16::nat). f m) = f 0 + f 1 + f 2 + f 3 + f 4 + f 5 + f 6 + f 7 + f 8 + f 9 + f 10
     + f 11 + f 12 + f 13 + f 14 + (f 15 :: real)"
  by (simp add: eval_nat_numeral)

lemma ln_2pi_lower: "24067 / 13095 < ln (2 * pi)"
proof -
  let ?x = "24067 / 13095 :: real"
  have "exp ?x \<le> (\<Sum>m<16. ?x ^ m / fact m) + 9 * ?x ^ 16 / fact 16"
    by (rule exp_le_partial_sum) simp_all
  also have "\<dots> < 12 * (16563 / 31633)"
    by (simp add: sum_upto_16 fact_numeral power_divide)
  also have "\<dots> < 2 * pi" using pi_lower by simp
  finally have "exp ?x < exp (ln (2 * pi))" by simp
  then show ?thesis by (simp only: exp_less_cancel_iff)
qed

lemma ln_2pi_upper: "ln (2 * pi) < 40516 / 22045"
proof -
  let ?x = "40516 / 22045 :: real"
  have "2 * pi < 12 * (17628 / 33667)" using pi_upper by simp
  also have "\<dots> < (\<Sum>m<16. ?x ^ m / fact m)"
    by (simp add: sum_upto_16 fact_numeral power_divide)
  also have "\<dots> \<le> exp ?x"
    by (rule exp_ge_partial_sum) simp
  finally have "exp (ln (2 * pi)) < exp ?x" by simp
  then show ?thesis by (simp only: exp_less_cancel_iff)
qed

subsection \<open>The value on the recorded sample\<close>

lemma recorded_data_sum_sq:
  "(\<Sum>x\<leftarrow>recorded_data. (x - 1)\<^sup>2) = 101394717800999301 / 125000000000000"
  by (simp add: recorded_data_def power2_eq_square)

lemma neg_log_llh_recorded:
  "neg_log_llh [1, 1] recorded_data =
     Inr (Num (25 * ln (2 * pi) + 101394717800999301 / 250000000000000))"
proof -
  have "length recorded_data = 50" by (simp add: recorded_data_def)
  then show ?thesis
    using neg_log_llh_pos [of 1 1 "[]" recorded_data] by (simp add: recorded_data_sum_sq)
qed

text \<open>
  C10, as stated: applying \<open>neg_log_llh\<close> with \<open>theta = [1.0, 1.0]\<close> to the recorded
  50-element array yields the recorded value 451.52579798454957. It does not: the array
  is recorded to eight decimals, and on it the function's value lies below the recorded
  output by more than any rounding of the arithmetic accounts for.
\<close>

theorem recorded_output_not_reproduced:
  "neg_log_llh [1.0, 1.0] recorded_data \<noteq> Inr (Num recorded_output)"
proof -
  have "25 * ln (2 * pi) + 101394717800999301 / 250000000000000 < recorded_output"
    using ln_2pi_upper by (simp add: recorded_output_def)
  then show ?thesis by (simp add: neg_log_llh_recorded)
qed

text \<open>
  C10, amended: on the recorded array the value of \<open>neg_log_llh([1.0, 1.0], data)\<close> is
  finite, below the recorded output and within \<open>10^-6\<close> of it.
\<close>

theorem recorded_output_reproduced_to_six_decimals:
  "\<exists>r. neg_log_llh [1.0, 1.0] recorded_data = Inr (Num r)
     \<and> recorded_output - 1 / 10 ^ 6 < r \<and> r < recorded_output"
proof -
  have "25 * ln (2 * pi) + 101394717800999301 / 250000000000000 < recorded_output"
    using ln_2pi_upper by (simp add: recorded_output_def)
  moreover have "recorded_output - 1 / 10 ^ 6 < 25 * ln (2 * pi) + 101394717800999301 / 250000000000000"
    using ln_2pi_lower by (simp add: recorded_output_def)
  ultimately show ?thesis by (simp add: neg_log_llh_recorded)
qed

end
